theory Spec2Isabelle
  imports Main
begin

section \<open>The Catcher environment of \<^verbatim>\<open>x/environment.py\<close>\<close>

text \<open>
  The class \<^verbatim>\<open>Catcher\<close> is embedded method by method. An instance is a record of its
  attributes; a method takes the instance and returns what it returns together with the
  instance after the call, so that what a method writes (and what it does not write) is
  part of its value. Every exception the source can raise is a value of \<open>py_error\<close>.

  Numbers are Python integers (\<open>int\<close>). The entries of the state array are numpy
  integers of a fixed width of at least 32 bits; the model is exact as long as they stay
  below \<open>2 ^ 31\<close>. After a reset and \<open>k\<close> updates the entries are \<open>k\<close>, at most
  \<open>grid_size - 2\<close> and at most \<open>grid_size - 1\<close> (lemma \<open>episode_entries\<close>).
\<close>

subsection \<open>Data\<close>

datatype py_error = ValueError | IndexError | AttributeError | UnboundLocalError

text \<open>
  An array that leaves the class: its shape and its entries in row-major order. The
  arrays met here hold integers or the floats \<open>0.0\<close> and \<open>1.0\<close>, written 0 and 1.
\<close>

record ndarray =
  shape :: "int list"
  data :: "int list"

text \<open>
  The attributes of a \<^verbatim>\<open>Catcher\<close>. \<open>output_shape = None\<close> says that the attribute was
  never assigned. \<open>state\<close> is the attribute \<^verbatim>\<open>_state\<close>, an array of shape \<open>(1, 3)\<close>:
  its one row \<open>(fruit_row, fruit_col, basket)\<close>.
\<close>

record catcher =
  grid_size :: int
  output_type :: string
  output_shape :: "int list option"
  state :: "int \<times> int \<times> int"

definition fruit_row :: "catcher \<Rightarrow> int" where
  "fruit_row self = fst (state self)"

definition fruit_col :: "catcher \<Rightarrow> int" where
  "fruit_col self = fst (snd (state self))"

definition basket :: "catcher \<Rightarrow> int" where
  "basket self = snd (snd (state self))"

subsection \<open>What the class uses of numpy\<close>

text \<open>
  \<^verbatim>\<open>np.random.randint(low, high, size=1)\<close> draws from the discrete uniform distribution
  on the half-open interval from \<open>low\<close> to \<open>high\<close> and raises \<^verbatim>\<open>ValueError\<close> when the
  interval is empty. With \<^verbatim>\<open>size=1\<close> it returns an array of one element. A uniform draw
  is represented by the list of the equally likely values of that element.
\<close>

definition randint :: "int \<Rightarrow> int \<Rightarrow> py_error + int list" where
  "randint low high = (if low \<ge> high then Inl ValueError else Inr [low..high - 1])"

text \<open>
  \<^verbatim>\<open>np.asarray([0, n, m])\<close> in \<^verbatim>\<open>reset\<close> is given the integer 0 and the two draws, each an
  array of one element. What numpy makes of such a list depends on its release, and the
  repository asks for none (\<^verbatim>\<open>setup.py\<close> lists no requirements), so the release's rule is
  a parameter of \<^verbatim>\<open>reset\<close> and of the constructor:
  \<^item> \<open>Converts\<close>: the releases of the source's time (before numpy 1.20) take each
    one-element array for its integer and return an integer array of shape \<open>(3,)\<close>;
  \<^item> \<open>Refuses\<close>: numpy 1.24 and later raise \<^verbatim>\<open>ValueError\<close> for the list.

  The releases in between store the two one-element arrays themselves in an array of
  objects. That state is not an integer triple; it is not modelled, and nothing below
  speaks about it. \<^verbatim>\<open>_update_state\<close> calls \<^verbatim>\<open>np.asarray\<close> too, on the three entries of an
  integer state, which every release accepts.
\<close>

datatype asarray_rule = Converts | Refuses

text \<open>
  An index \<open>i\<close> into an axis of length \<open>n\<close>: negative indices count from the end, and an
  index outside \<open>-n \<le> i < n\<close> raises \<^verbatim>\<open>IndexError\<close>.
\<close>

definition norm_index :: "int \<Rightarrow> int \<Rightarrow> py_error + nat" where
  "norm_index n i =
     (if - n \<le> i \<and> i < n then Inr (nat (if i < 0 then i + n else i)) else Inl IndexError)"

text \<open>
  A slice \<open>lo:hi\<close> of an axis of length \<open>n\<close> never raises: each bound is moved into
  \<open>0..n\<close> (a negative bound counts from the end first), and the positions from the
  lower bound up to, not including, the upper bound are selected.
\<close>

definition slice_bound :: "int \<Rightarrow> int \<Rightarrow> int" where
  "slice_bound n k = (if k < 0 then max (k + n) 0 else min k n)"

definition slice_indices :: "int \<Rightarrow> int \<Rightarrow> int \<Rightarrow> nat list" where
  "slice_indices n lo hi = map nat [slice_bound n lo..slice_bound n hi - 1]"

definition set_cells :: "int list \<Rightarrow> nat list \<Rightarrow> int \<Rightarrow> int list" where
  "set_cells row js v = fold (\<lambda>j r. r[j := v]) js row"

text \<open>
  \<^verbatim>\<open>np.zeros((n, n))\<close> as a list of rows; a negative dimension raises \<^verbatim>\<open>ValueError\<close>.
\<close>

definition zeros :: "int \<Rightarrow> py_error + int list list" where
  "zeros n = (if n < 0 then Inl ValueError else Inr (replicate (nat n) (replicate (nat n) 0)))"

text \<open>
  \<^verbatim>\<open>canvas.reshape(shp)\<close>: the entries in row-major order under the new shape, which must
  have as many cells as the canvas. (The class only ever asks for shapes made of
  \<open>grid_size\<close>, its square and 1, so numpy's wildcard dimension \<open>-1\<close> is left out.)
\<close>

definition reshape :: "int list list \<Rightarrow> int list \<Rightarrow> py_error + ndarray" where
  "reshape canvas shp =
     (if list_all (\<lambda>d. 0 \<le> d) shp \<and> prod_list shp = int (length (concat canvas))
      then Inr \<lparr>shape = shp, data = concat canvas\<rparr>
      else Inl ValueError)"

subsection \<open>The methods of \<^verbatim>\<open>Catcher\<close>\<close>

text \<open>
  \<^verbatim>\<open>reset\<close>: two draws, then \<^verbatim>\<open>np.asarray\<close> on the list of 0 and the two draws, under
  the rule \<open>np\<close> of the numpy at hand, then the new state. The result lists the equally
  likely instances after the call; both draws are independent, so every pair of values
  is equally likely.
\<close>

definition reset :: "asarray_rule \<Rightarrow> catcher \<Rightarrow> py_error + catcher list" where
  "reset np self =
     (case randint 0 (grid_size self - 1) of
        Inl e \<Rightarrow> Inl e
      | Inr ns \<Rightarrow>
          (case randint 1 (grid_size self - 2) of
             Inl e \<Rightarrow> Inl e
           | Inr ms \<Rightarrow>
               (case np of
                  Refuses \<Rightarrow> Inl ValueError
                | Converts \<Rightarrow>
                    Inr (map (\<lambda>(n, m). self\<lparr>state := (0, n, m)\<rparr>) (List.product ns ms)))))"

text \<open>
  \<^verbatim>\<open>__init__\<close>. \<^verbatim>\<open>self.output_shape\<close> is assigned only inside
  \<^verbatim>\<open>if output_shape is None\<close>, and there only for the two known output types.
  \<^verbatim>\<open>_state\<close> does not exist before \<^verbatim>\<open>reset\<close> assigns it and \<^verbatim>\<open>reset\<close> does not read it;
  the record carries \<open>(0, 0, 0)\<close> until then.
\<close>

definition init ::
  "asarray_rule \<Rightarrow> int \<Rightarrow> int list option \<Rightarrow> string \<Rightarrow> py_error + catcher list" where
  "init np grid_size0 output_shape0 output_type0 =
     reset np \<lparr>grid_size = grid_size0, output_type = output_type0,
               output_shape =
                 (if output_shape0 = None then
                    (if output_type0 = ''pixels'' then Some [grid_size0 ^ 2]
                     else if output_type0 = ''position'' then Some [3]
                     else None)
                  else None),
               state = (0, 0, 0)\<rparr>"

text \<open>\<^verbatim>\<open>_update_state\<close>: returns nothing; the value is the instance after the call.\<close>

definition update_state :: "catcher \<Rightarrow> int \<Rightarrow> catcher" where
  "update_state self action =
     (let action1 = (if action = 0 then - 1 else if action = 1 then 0 else 1);
          (f0, f1, basket0) = state self;
          new_basket = min (max 1 (basket0 + action1)) (grid_size self - 1)
      in self\<lparr>state := (f0 + 1, f1, new_basket)\<rparr>)"

text \<open>
  \<^verbatim>\<open>_draw_state\<close>: a canvas of zeros, the fruit's cell set to 1, then the slice
  \<open>basket - 1 : basket + 2\<close> of the last row set to 1.
\<close>

definition draw_state :: "catcher \<Rightarrow> (py_error + int list list) \<times> catcher" where
  "draw_state self =
     (let (f0, f1, basket0) = state self in
      (case zeros (grid_size self) of
         Inl e \<Rightarrow> Inl e
       | Inr canvas \<Rightarrow>
           (case norm_index (grid_size self) f0 of
              Inl e \<Rightarrow> Inl e
            | Inr r \<Rightarrow>
                (case norm_index (grid_size self) f1 of
                   Inl e \<Rightarrow> Inl e
                 | Inr c \<Rightarrow>
                     (let canvas1 = canvas[r := (canvas ! r)[c := 1]] in
                      (case norm_index (grid_size self) (- 1) of
                         Inl e \<Rightarrow> Inl e
                       | Inr l \<Rightarrow>
                           Inr (canvas1[l := set_cells (canvas1 ! l)
                                  (slice_indices (grid_size self) (basket0 - 1) (basket0 + 2)) 1]))))),
       self))"

definition reward :: "catcher \<Rightarrow> int \<times> catcher" where
  "reward self =
     (let (fruit_row0, fruit_col0, basket0) = state self in
      (if fruit_row0 = grid_size self - 1 then
         (if abs (fruit_col0 - basket0) \<le> 1 then 1 else - 1)
       else 0,
       self))"

definition observe_image :: "catcher \<Rightarrow> (py_error + ndarray) \<times> catcher" where
  "observe_image self =
     (case draw_state self of
        (Inl e, self1) \<Rightarrow> (Inl e, self1)
      | (Inr canvas, self1) \<Rightarrow>
          (reshape canvas [1, 1, grid_size self1, grid_size self1], self1))"

text \<open>
  \<^verbatim>\<open>observe\<close>: two separate \<^verbatim>\<open>if\<close>s, each of which may bind the local \<^verbatim>\<open>out\<close>;
  \<^verbatim>\<open>return out\<close> raises \<^verbatim>\<open>UnboundLocalError\<close> when neither did. In the first,
  the canvas is drawn before \<^verbatim>\<open>self.output_shape\<close> is read.
\<close>

definition observe :: "catcher \<Rightarrow> (py_error + ndarray) \<times> catcher" where
  "observe self =
     (case (if output_type self = ''pixels'' then
              (case draw_state self of
                 (Inl e, self1) \<Rightarrow> (Inl e, self1)
               | (Inr canvas, self1) \<Rightarrow>
                   (case output_shape self1 of
                      None \<Rightarrow> (Inl AttributeError, self1)
                    | Some shp \<Rightarrow> (map_sum id Some (reshape canvas (1 # shp)), self1)))
            else (Inr None, self)) of
        (Inl e, self1) \<Rightarrow> (Inl e, self1)
      | (Inr out1, self1) \<Rightarrow>
          (let out2 = (if output_type self1 = ''position'' then
                         (let (f0, f1, basket0) = state self1
                          in Some \<lparr>shape = [3], data = [f0, f1, basket0]\<rparr>)
                       else out1)
           in (case out2 of None \<Rightarrow> Inl UnboundLocalError | Some out \<Rightarrow> Inr out, self1)))"

text \<open>The property \<^verbatim>\<open>is_over\<close>.\<close>

definition is_over :: "catcher \<Rightarrow> bool \<times> catcher" where
  "is_over self = (if fst (state self) = grid_size self - 1 then True else False, self)"

text \<open>
  \<^verbatim>\<open>update\<close>. The state is written first; an exception raised by \<^verbatim>\<open>observe\<close> afterwards
  leaves the instance as the calls before it made it.
\<close>

definition update :: "catcher \<Rightarrow> int \<Rightarrow> (py_error + ndarray \<times> int \<times> bool) \<times> catcher" where
  "update self action =
     (let self1 = update_state self action;
          (reward0, self2) = reward self1;
          (game_over, self3) = is_over self2
      in (case observe self3 of
            (Inl e, self4) \<Rightarrow> (Inl e, self4)
          | (Inr ob, self4) \<Rightarrow> (Inr (ob, reward0, game_over), self4)))"

text \<open>A caller's sequence of \<^verbatim>\<open>update\<close> calls, whatever each of them returns or raises.\<close>

fun updates :: "catcher \<Rightarrow> int list \<Rightarrow> catcher" where
  "updates self [] = self"
| "updates self (a # as) = updates (snd (update self a)) as"

section \<open>Properties\<close>

subsection \<open>Helper facts\<close>

lemma reward_snd: "snd (reward self) = self"
  by (simp add: reward_def split: prod.splits)

lemma is_over_snd: "snd (is_over self) = self"
  by (simp add: is_over_def)

lemma draw_state_snd: "snd (draw_state self) = self"
  by (simp add: draw_state_def split: prod.splits)

lemma observe_snd: "snd (observe self) = self"
  by (cases "draw_state self")
    (use draw_state_snd [of self] in
      \<open>auto simp: observe_def Let_def split: prod.splits sum.splits option.splits\<close>)

lemma update_snd: "snd (update self action) = update_state self action"
  by (cases "observe (update_state self action)")
    (use observe_snd [of "update_state self action"] in
      \<open>auto simp: update_def Let_def reward_def is_over_def split: prod.splits sum.splits\<close>)

lemma observe_image_snd: "snd (observe_image self) = self"
  by (cases "draw_state self")
    (use draw_state_snd [of self] in \<open>auto simp: observe_image_def split: sum.splits\<close>)

lemma update_state_grid_size: "grid_size (update_state self action) = grid_size self"
  by (simp add: update_state_def Let_def split: prod.splits)

lemma update_state_output_type: "output_type (update_state self action) = output_type self"
  by (simp add: update_state_def Let_def split: prod.splits)

lemma update_state_output_shape: "output_shape (update_state self action) = output_shape self"
  by (simp add: update_state_def Let_def split: prod.splits)

lemma update_state_fruit_row: "fruit_row (update_state self action) = fruit_row self + 1"
  by (simp add: update_state_def fruit_row_def Let_def split: prod.splits)

lemma update_state_fruit_col: "fruit_col (update_state self action) = fruit_col self"
  by (simp add: update_state_def fruit_col_def Let_def split: prod.splits)

lemma update_state_basket:
  "basket (update_state self action) =
     min (max 1 (basket self + (if action = 0 then - 1 else if action = 1 then 0 else 1)))
       (grid_size self - 1)"
  by (simp add: update_state_def basket_def Let_def split: prod.splits)

lemma is_over_fst: "fst (is_over self) \<longleftrightarrow> fruit_row self = grid_size self - 1"
  by (simp add: is_over_def fruit_row_def)

lemma update_flag:
  "fst (update self action) = Inr (ob, r, over) \<Longrightarrow>
     over = fst (is_over (update_state self action)) \<and> r = fst (reward (update_state self action))"
  by (cases "observe (update_state self action)")
    (auto simp: update_def Let_def reward_def is_over_def split: prod.splits sum.splits)

subsection \<open>The transition\<close>

text \<open>
  Claim C1. For every state and every action value, the instance after \<^verbatim>\<open>update\<close> has
  \<open>fruit_row\<close> increased by exactly 1, \<open>fruit_col\<close> unchanged, and \<open>basket\<close> equal to
  \<open>min (max 1 (basket + delta)) (grid_size - 1)\<close>, where \<open>delta\<close> is \<open>-1\<close> for action 0,
  \<open>0\<close> for action 1 and \<open>+1\<close> for any other action; hence the new basket lies in
  \<open>1..grid_size - 1\<close>. This holds whether \<^verbatim>\<open>update\<close> returns or raises while observing.
  The interval is empty for a grid smaller than 2; no such instance exists, since the
  constructor only returns for \<open>grid_size \<ge> 4\<close>, under either rule of numpy (lemma
  \<open>init_grid_size\<close> below).
\<close>

theorem update_advances_state:
  "fruit_row (snd (update self action)) = fruit_row self + 1 \<and>
   fruit_col (snd (update self action)) = fruit_col self \<and>
   basket (snd (update self action)) =
     min (max 1 (basket self + (if action = 0 then - 1 else if action = 1 then 0 else 1)))
       (grid_size self - 1) \<and>
   (2 \<le> grid_size self \<longrightarrow>
      1 \<le> basket (snd (update self action)) \<and>
      basket (snd (update self action)) \<le> grid_size self - 1)"
  by (auto simp: update_snd update_state_fruit_row update_state_fruit_col update_state_basket)

theorem update_advances_state_witness:
  "(2::int) \<le> 4 \<and>
   snd (update \<lparr>grid_size = 4, output_type = ''pixels'', output_shape = Some [16],
                state = (0, 2, 3)\<rparr> 2) =
     \<lparr>grid_size = 4, output_type = ''pixels'', output_shape = Some [16], state = (1, 2, 3)\<rparr> \<and>
   1 \<le> basket (snd (update \<lparr>grid_size = 4, output_type = ''pixels'', output_shape = Some [16],
                state = (0, 2, 3)\<rparr> 2)) \<and>
   basket (snd (update \<lparr>grid_size = 4, output_type = ''pixels'', output_shape = Some [16],
                state = (0, 2, 3)\<rparr> 2)) \<le> 4 - 1"
  using update_advances_state [of "\<lparr>grid_size = 4, output_type = ''pixels'',
      output_shape = Some [16], state = (0, 2, 3)\<rparr>" 2]
  by (simp add: update_snd update_state_def)

subsection \<open>Reward and termination\<close>

text \<open>
  Claim C2. For every state, \<^verbatim>\<open>reward\<close> returns \<open>+1\<close> if \<open>fruit_row = grid_size - 1\<close> and
  \<open>abs (fruit_col - basket) \<le> 1\<close>, \<open>-1\<close> if \<open>fruit_row = grid_size - 1\<close> and
  \<open>abs (fruit_col - basket) > 1\<close>, and \<open>0\<close> otherwise; so it is nonzero only when
  \<^verbatim>\<open>is_over\<close> is true of the same state.
\<close>

theorem reward_cases:
  "fst (reward self) =
     (if fruit_row self = grid_size self - 1
      then (if abs (fruit_col self - basket self) \<le> 1 then 1 else - 1)
      else 0) \<and>
   (fst (reward self) \<noteq> 0 \<longrightarrow> fst (is_over self))"
  by (simp add: reward_def is_over_def fruit_row_def fruit_col_def basket_def split: prod.splits)

theorem reward_cases_witness:
  "fst (reward \<lparr>grid_size = 5, output_type = ''position'', output_shape = Some [3],
                state = (4, 2, 4)\<rparr>) = - 1 \<and>
   fst (is_over \<lparr>grid_size = 5, output_type = ''position'', output_shape = Some [3],
                state = (4, 2, 4)\<rparr>)"
  using reward_cases [of "\<lparr>grid_size = 5, output_type = ''position'',
      output_shape = Some [3], state = (4, 2, 4)\<rparr>"]
  by (simp add: fruit_row_def fruit_col_def basket_def)

text \<open>
  Claim C7. For every state, \<^verbatim>\<open>is_over\<close> is true if and only if
  \<open>fruit_row = grid_size - 1\<close>. It is computed from the state it is read from: the
  instance has no flag of its own, and the flag that \<^verbatim>\<open>update\<close> returns is the one of
  the state that \<^verbatim>\<open>update\<close> leaves behind.
\<close>

theorem is_over_iff:
  "(fst (is_over self) \<longleftrightarrow> fruit_row self = grid_size self - 1) \<and>
   (fst (update self action) = Inr (ob, r, over) \<longrightarrow>
      (over \<longleftrightarrow> fruit_row (snd (update self action)) = grid_size self - 1))"
  using update_flag [of self action ob r over]
  by (simp add: is_over_fst update_snd update_state_grid_size)

theorem is_over_iff_witness:
  "fst (update \<lparr>grid_size = 4, output_type = ''position'', output_shape = Some [3],
                state = (2, 0, 1)\<rparr> 1) =
     Inr (\<lparr>shape = [3], data = [3, 0, 1]\<rparr>, 1, True) \<and>
   fruit_row (snd (update \<lparr>grid_size = 4, output_type = ''position'', output_shape = Some [3],
                state = (2, 0, 1)\<rparr> 1)) = 4 - 1"
  using is_over_iff [of "\<lparr>grid_size = 4, output_type = ''position'',
      output_shape = Some [3], state = (2, 0, 1)\<rparr>" 1 "\<lparr>shape = [3], data = [3, 0, 1]\<rparr>" 1 True]
  by (simp add: update_def update_state_def reward_def is_over_def observe_def)

subsection \<open>What the reading methods leave alone\<close>

text \<open>
  Claim C9. For every state, calling \<^verbatim>\<open>observe\<close>, \<^verbatim>\<open>observe_image\<close> or \<^verbatim>\<open>reward\<close>, or
  reading \<^verbatim>\<open>is_over\<close>, leaves the instance, and so its state
  \<open>(fruit_row, fruit_col, basket)\<close>, as it was, also when the call raises. Only
  \<^verbatim>\<open>update\<close> and \<^verbatim>\<open>reset\<close> write the state.
\<close>

theorem readers_leave_state:
  "snd (observe self) = self \<and> snd (observe_image self) = self \<and>
   snd (reward self) = self \<and> snd (is_over self) = self"
  by (simp add: observe_snd observe_image_snd reward_snd is_over_snd)

subsection \<open>Facts about \<^verbatim>\<open>reset\<close> and the constructor\<close>

lemma reset_small: "grid_size self < 4 \<Longrightarrow> reset np self = Inl ValueError"
  by (simp add: reset_def randint_def)

lemma reset_refuses: "reset Refuses self = Inl ValueError"
  by (simp add: reset_def randint_def)

lemma reset_large:
  "4 \<le> grid_size self \<Longrightarrow>
     reset Converts self = Inr (map (\<lambda>(n, m). self\<lparr>state := (0, n, m)\<rparr>)
       (List.product [0..grid_size self - 2] [1..grid_size self - 3]))"
  by (simp add: reset_def randint_def)

lemma reset_Inr_grid_size:
  assumes "reset np self = Inr outs"
  shows "np = Converts \<and> 4 \<le> grid_size self"
proof -
  from assms reset_refuses [of self] have "np = Converts"
    by (cases np) simp_all
  moreover from assms reset_small [of self np] have "4 \<le> grid_size self"
    by (cases "grid_size self < 4") simp_all
  ultimately show ?thesis by simp
qed

lemma reset_Inl: "reset np self = Inl e \<Longrightarrow> e = ValueError"
  by (cases np) (auto simp: reset_def randint_def split: if_splits)

lemma init_grid_size: "init np g shp ty = Inr outs \<Longrightarrow> 4 \<le> g"
  unfolding init_def by (drule reset_Inr_grid_size) simp

lemma reset_member:
  assumes "reset np self = Inr outs" and "s \<in> set outs"
  shows "4 \<le> grid_size self \<and> s = self\<lparr>state := (0, fruit_col s, basket s)\<rparr> \<and>
     0 \<le> fruit_col s \<and> fruit_col s \<le> grid_size self - 2 \<and>
     1 \<le> basket s \<and> basket s \<le> grid_size self - 3"
proof -
  from assms(1) have np: "np = Converts" and g: "4 \<le> grid_size self"
    using reset_Inr_grid_size by blast+
  with assms(1) have "outs = map (\<lambda>(n, m). self\<lparr>state := (0, n, m)\<rparr>)
       (List.product [0..grid_size self - 2] [1..grid_size self - 3])"
    by (simp add: reset_large)
  with assms(2) g show ?thesis by (auto simp: fruit_col_def basket_def)
qed

lemma reset_fruit_row:
  assumes "reset np self = Inr outs" and "s \<in> set outs"
  shows "fruit_row s = 0 \<and> grid_size s = grid_size self \<and> 4 \<le> grid_size self"
proof -
  from reset_member [OF assms] obtain st where "s = self\<lparr>state := (0, st)\<rparr>" and "4 \<le> grid_size self"
    by blast
  then show ?thesis by (simp add: fruit_row_def)
qed

lemma init_explicit_shape_unset:
  assumes "init np g (Some shp) ty = Inr outs" and "s \<in> set outs"
  shows "output_shape s = None"
proof -
  define c where "c = \<lparr>grid_size = g, output_type = ty, output_shape = None, state = (0, 0, 0)\<rparr>"
  from assms(1) have "reset np c = Inr outs" by (simp add: init_def c_def)
  from reset_member [OF this assms(2)] obtain st where "s = c\<lparr>state := st\<rparr>"
    by blast
  then show ?thesis by (simp add: c_def)
qed

lemma init_error_any_type:
  assumes "init np g shp ty = Inl e"
  shows "e = ValueError \<and> init np g shp0 ty0 = Inl ValueError"
proof -
  from assms have e: "e = ValueError"
    unfolding init_def by (rule reset_Inl)
  have "np = Refuses \<or> g < 4"
  proof (rule ccontr)
    assume "\<not> (np = Refuses \<or> g < 4)"
    then have "np = Converts" and "4 \<le> g" by (cases np, simp_all)
    with assms show False by (simp add: init_def reset_large)
  qed
  then have "init np g shp0 ty0 = Inl ValueError"
    by (auto simp: init_def reset_refuses reset_small)
  with e show ?thesis by simp
qed

lemma count_fst_product:
  "count_list (map fst (List.product ns ms)) n = count_list ns n * length ms"
proof (induction ns)
  case Nil
  show ?case by simp
next
  case (Cons a ns)
  have "count_list (map (\<lambda>x. a) ms) n = (if a = n then length ms else 0)"
    by (induction ms) auto
  with Cons show ?case by (simp add: comp_def)
qed

lemma count_snd_product:
  "count_list (map snd (List.product ns ms)) m = length ns * count_list ms m"
  by (induction ns) (simp_all add: comp_def)

lemma count_list_upto: "count_list [i..j] k = (if i \<le> k \<and> k \<le> j then 1 else 0)"
proof (induction "nat (j - i + 1)" arbitrary: i)
  case 0
  then show ?case by simp
next
  case (Suc d)
  then have "i \<le> j" by simp
  then have "[i..j] = i # [i + 1..j]" by (rule upto_rec1)
  moreover from Suc have "count_list [i + 1..j] k = (if i + 1 \<le> k \<and> k \<le> j then 1 else 0)"
    by simp
  ultimately show ?case using \<open>i \<le> j\<close> by auto
qed

lemma reset_fruit_cols:
  "map fruit_col (map (\<lambda>(n, m). self\<lparr>state := (0, n, m)\<rparr>) ps) = map fst ps"
  by (simp add: fruit_col_def comp_def split_def)

lemma reset_baskets:
  "map basket (map (\<lambda>(n, m). self\<lparr>state := (0, n, m)\<rparr>) ps) = map snd ps"
  by (simp add: basket_def comp_def split_def)

lemma reset_distinct:
  "distinct ps \<Longrightarrow> distinct (map (\<lambda>(n, m). self\<lparr>state := (0, n, m)\<rparr>) ps)"
proof -
  have "inj (\<lambda>(n, m). self\<lparr>state := (0::int, n::int, m::int)\<rparr>)"
    by (rule injI) (auto dest: arg_cong [where f = state])
  then have "inj_on (\<lambda>(n, m). self\<lparr>state := (0::int, n::int, m::int)\<rparr>) (set ps)"
    by (rule inj_on_subset) simp
  then show "distinct ps \<Longrightarrow> ?thesis"
    by (simp add: distinct_map)
qed

text \<open>
  Claim C6, amended. Where numpy turns the two one-element draws into integers (rule
  \<open>Converts\<close>) and \<open>grid_size \<ge> 4\<close>, \<^verbatim>\<open>reset\<close> returns; in every outcome \<open>fruit_row\<close> is 0,
  \<open>fruit_col\<close> lies in \<open>0..grid_size - 2\<close>, \<open>basket\<close> lies in \<open>1..grid_size - 3\<close>, nothing
  but the state is written, and \<^verbatim>\<open>is_over\<close> is false. The draws are uniform: the equally
  likely outcomes are pairwise different, every value of \<open>0..grid_size - 2\<close> is the
  \<open>fruit_col\<close> of the same number of them, and every value of \<open>1..grid_size - 3\<close> is the
  \<open>basket\<close> of the same number of them. For \<open>grid_size < 4\<close> a draw has an empty range and
  \<^verbatim>\<open>reset\<close> raises \<^verbatim>\<open>ValueError\<close> under either rule; where numpy refuses the list (rule
  \<open>Refuses\<close>) \<^verbatim>\<open>reset\<close> raises \<^verbatim>\<open>ValueError\<close> for every \<open>grid_size\<close>. So \<^verbatim>\<open>reset\<close> returns
  only under \<open>Converts\<close> with \<open>grid_size \<ge> 4\<close>.
\<close>

theorem reset_outcomes:
  "(4 \<le> grid_size self \<longrightarrow>
      (\<exists>outs. reset Converts self = Inr outs \<and> outs \<noteq> [] \<and> distinct outs \<and>
         (\<forall>s \<in> set outs. fruit_row s = 0 \<and> \<not> fst (is_over s) \<and>
            0 \<le> fruit_col s \<and> fruit_col s \<le> grid_size self - 2 \<and>
            1 \<le> basket s \<and> basket s \<le> grid_size self - 3 \<and>
            s = self\<lparr>state := (0, fruit_col s, basket s)\<rparr>) \<and>
         (\<forall>n. count_list (map fruit_col outs) n =
            (if 0 \<le> n \<and> n \<le> grid_size self - 2 then nat (grid_size self - 3) else 0)) \<and>
         (\<forall>m. count_list (map basket outs) m =
            (if 1 \<le> m \<and> m \<le> grid_size self - 3 then nat (grid_size self - 1) else 0)))) \<and>
   (grid_size self < 4 \<longrightarrow> reset np self = Inl ValueError) \<and>
   reset Refuses self = Inl ValueError \<and>
   (reset np self = Inr outs0 \<longrightarrow> np = Converts \<and> 4 \<le> grid_size self)"
proof (intro conjI impI)
  assume g: "4 \<le> grid_size self"
  define ps where "ps = List.product [0..grid_size self - 2] [1..grid_size self - 3]"
  define outs where "outs = map (\<lambda>(n, m). self\<lparr>state := (0, n, m)\<rparr>) ps"
  have r: "reset Converts self = Inr outs"
    using g by (simp add: reset_large outs_def ps_def)
  have ne: "outs \<noteq> []"
    using g by (simp add: outs_def ps_def upto.simps)
  have d: "distinct outs"
    unfolding outs_def by (rule reset_distinct) (simp add: ps_def distinct_product)
  have m: "\<forall>s \<in> set outs. fruit_row s = 0 \<and> \<not> fst (is_over s) \<and>
            0 \<le> fruit_col s \<and> fruit_col s \<le> grid_size self - 2 \<and>
            1 \<le> basket s \<and> basket s \<le> grid_size self - 3 \<and>
            s = self\<lparr>state := (0, fruit_col s, basket s)\<rparr>"
    using g by (auto simp: outs_def ps_def fruit_row_def fruit_col_def basket_def is_over_def)
  have c1: "\<forall>n. count_list (map fruit_col outs) n =
            (if 0 \<le> n \<and> n \<le> grid_size self - 2 then nat (grid_size self - 3) else 0)"
    unfolding outs_def reset_fruit_cols ps_def count_fst_product count_list_upto
    using g by simp
  have c2: "\<forall>m. count_list (map basket outs) m =
            (if 1 \<le> m \<and> m \<le> grid_size self - 3 then nat (grid_size self - 1) else 0)"
    unfolding outs_def reset_baskets ps_def count_snd_product count_list_upto
    using g by simp
  from r ne d m c1 c2
  show "\<exists>outs. reset Converts self = Inr outs \<and> outs \<noteq> [] \<and> distinct outs \<and>
         (\<forall>s \<in> set outs. fruit_row s = 0 \<and> \<not> fst (is_over s) \<and>
            0 \<le> fruit_col s \<and> fruit_col s \<le> grid_size self - 2 \<and>
            1 \<le> basket s \<and> basket s \<le> grid_size self - 3 \<and>
            s = self\<lparr>state := (0, fruit_col s, basket s)\<rparr>) \<and>
         (\<forall>n. count_list (map fruit_col outs) n =
            (if 0 \<le> n \<and> n \<le> grid_size self - 2 then nat (grid_size self - 3) else 0)) \<and>
         (\<forall>m. count_list (map basket outs) m =
            (if 1 \<le> m \<and> m \<le> grid_size self - 3 then nat (grid_size self - 1) else 0))"
    by blast
next
  assume "grid_size self < 4"
  then show "reset np self = Inl ValueError" by (rule reset_small)
next
  show "reset Refuses self = Inl ValueError" by (rule reset_refuses)
next
  assume r: "reset np self = Inr outs0"
  then show "np = Converts" using reset_Inr_grid_size by blast
  from r show "4 \<le> grid_size self" using reset_Inr_grid_size by blast
qed

theorem reset_outcomes_witness:
  "(4::int) \<le> 4 \<and>
   reset Converts
     \<lparr>grid_size = 4, output_type = ''pixels'', output_shape = Some [16], state = (3, 1, 2)\<rparr> =
     Inr [\<lparr>grid_size = 4, output_type = ''pixels'', output_shape = Some [16], state = (0, 0, 1)\<rparr>,
          \<lparr>grid_size = 4, output_type = ''pixels'', output_shape = Some [16], state = (0, 1, 1)\<rparr>,
          \<lparr>grid_size = 4, output_type = ''pixels'', output_shape = Some [16], state = (0, 2, 1)\<rparr>] \<and>
   reset Refuses
     \<lparr>grid_size = 4, output_type = ''pixels'', output_shape = Some [16], state = (3, 1, 2)\<rparr> =
     Inl ValueError \<and>
   (3::int) < 4 \<and>
   reset Converts
     \<lparr>grid_size = 3, output_type = ''pixels'', output_shape = Some [9], state = (0, 0, 0)\<rparr> =
     Inl ValueError"
proof -
  let ?c4 = "\<lparr>grid_size = 4, output_type = ''pixels'', output_shape = Some [16],
              state = (3::int, 1::int, 2::int)\<rparr>"
  let ?c3 = "\<lparr>grid_size = 3, output_type = ''pixels'', output_shape = Some [9],
              state = (0::int, 0::int, 0::int)\<rparr>"
  let ?outs = "[?c4\<lparr>state := (0, 0, 1)\<rparr>, ?c4\<lparr>state := (0, 1, 1)\<rparr>, ?c4\<lparr>state := (0, 2, 1)\<rparr>]"
  have r: "reset Converts ?c4 = Inr ?outs"
    by (simp add: reset_def randint_def upto.simps)
  from reset_outcomes [of ?c4 Converts ?outs] reset_outcomes [of ?c3 Converts "[]"] r
  show ?thesis by simp
qed

text \<open>
  The claim as written covers every \<open>grid_size > 1\<close>. With \<open>grid_size = 2\<close> the second
  draw is \<^verbatim>\<open>randint(1, 0)\<close>: \<^verbatim>\<open>reset\<close> raises, and so does the constructor, which calls it,
  whatever numpy does with the list.
\<close>

theorem reset_grid_2_counterexample:
  "1 < grid_size \<lparr>grid_size = 2, output_type = ''pixels'', output_shape = Some [4],
       state = (0, 0, 0)\<rparr> \<and>
   reset Converts
     \<lparr>grid_size = 2, output_type = ''pixels'', output_shape = Some [4], state = (0, 0, 0)\<rparr> =
     Inl ValueError \<and>
   reset Refuses
     \<lparr>grid_size = 2, output_type = ''pixels'', output_shape = Some [4], state = (0, 0, 0)\<rparr> =
     Inl ValueError \<and>
   init Converts 2 None ''pixels'' = Inl ValueError \<and>
   init Refuses 2 None ''pixels'' = Inl ValueError"
  by (simp add: init_def reset_def randint_def)

subsection \<open>The output shape and the output type\<close>

lemma observe_unknown:
  "output_type self \<noteq> ''pixels'' \<Longrightarrow> output_type self \<noteq> ''position'' \<Longrightarrow>
     observe self = (Inl UnboundLocalError, self)"
  by (simp add: observe_def)

lemma update_fst:
  "fst (update self action) =
     map_sum id (\<lambda>ob. (ob, fst (reward (update_state self action)),
                        fst (is_over (update_state self action))))
       (fst (observe (update_state self action)))"
  by (cases "observe (update_state self action)")
    (auto simp: update_def Let_def reward_def is_over_def split: prod.splits sum.splits)

text \<open>
  Claim C3. An \<open>output_shape\<close> given to the constructor should replace the default one,
  so that \<^verbatim>\<open>observe\<close> in pixels mode returns the canvas reshaped to \<open>(1,) + output_shape\<close>.
  The constructor stores nothing when the argument is given (lemma
  \<open>init_explicit_shape_unset\<close>): for \<^verbatim>\<open>Catcher(4, (4, 4), 'pixels')\<close>, where numpy lets the
  construction return, every outcome has no \<open>output_shape\<close> and \<^verbatim>\<open>observe\<close> raises
  \<^verbatim>\<open>AttributeError\<close>; where numpy refuses the list in \<^verbatim>\<open>reset\<close>, the constructor raises.
  Either way no reshaped canvas is returned.
\<close>

theorem explicit_output_shape_dropped:
  "map_sum id (map (\<lambda>s. (output_shape s, fst (observe s))))
     (init Converts 4 (Some [4, 4]) ''pixels'') =
     Inr [(None, Inl AttributeError), (None, Inl AttributeError), (None, Inl AttributeError)] \<and>
   init Refuses 4 (Some [4, 4]) ''pixels'' = Inl ValueError"
  by code_simp

text \<open>
  Claim C8, amended. Constructing a \<^verbatim>\<open>Catcher\<close> with an output type that is neither
  \<^verbatim>\<open>'pixels'\<close> nor \<^verbatim>\<open>'position'\<close> and without an output shape never fails on account of
  the output type. Whenever the constructor returns, \<open>output_shape\<close> is left unassigned
  and the failure comes later: \<^verbatim>\<open>observe\<close>, and \<^verbatim>\<open>update\<close> through it, raise
  \<^verbatim>\<open>UnboundLocalError\<close>. Whenever it raises, the error is the \<^verbatim>\<open>ValueError\<close> of \<^verbatim>\<open>reset\<close>,
  raised just the same for \<^verbatim>\<open>'pixels'\<close>. Where numpy turns the one-element draws into
  integers (rule \<open>Converts\<close>) the constructor returns for every \<open>grid_size \<ge> 4\<close>.
\<close>

theorem unknown_output_type_constructs:
  assumes "ty \<noteq> ''pixels''" and "ty \<noteq> ''position''"
  shows "(init np g None ty = Inr outs \<and> s \<in> set outs \<longrightarrow>
            output_type s = ty \<and> output_shape s = None \<and>
            fst (observe s) = Inl UnboundLocalError \<and>
            fst (update s action) = Inl UnboundLocalError) \<and>
         (init np g None ty = Inl e \<longrightarrow>
            e = ValueError \<and> init np g None ''pixels'' = Inl ValueError) \<and>
         (4 \<le> g \<longrightarrow>
            (\<exists>outs1. init Converts g None ty = Inr outs1 \<and> outs1 \<noteq> [] \<and>
               (\<forall>s1 \<in> set outs1. output_type s1 = ty \<and> output_shape s1 = None \<and>
                  fst (observe s1) = Inl UnboundLocalError \<and>
                  fst (update s1 action) = Inl UnboundLocalError)))"
proof -
  define c where "c = \<lparr>grid_size = g, output_type = ty, output_shape = None, state = (0, 0, 0)\<rparr>"
  have i: "init np0 g None ty = reset np0 c" for np0
    using assms by (simp add: init_def c_def)
  have later: "output_type s0 = ty \<and> output_shape s0 = None \<and>
        fst (observe s0) = Inl UnboundLocalError \<and>
        fst (update s0 action) = Inl UnboundLocalError"
    if r: "reset np0 c = Inr outs0" and m: "s0 \<in> set outs0" for np0 outs0 s0
  proof -
    from reset_member [OF r m] obtain st where "s0 = c\<lparr>state := st\<rparr>"
      by blast
    then have t: "output_type s0 = ty" and sh: "output_shape s0 = None"
      by (simp_all add: c_def)
    from t assms have "fst (observe s0) = Inl UnboundLocalError"
      by (simp add: observe_unknown)
    moreover from t assms have "fst (update s0 action) = Inl UnboundLocalError"
      by (simp add: update_fst observe_unknown update_state_output_type)
    ultimately show ?thesis using t sh by simp
  qed
  show ?thesis
  proof (intro conjI impI)
    assume a: "init np g None ty = Inr outs \<and> s \<in> set outs"
    then have "reset np c = Inr outs" and "s \<in> set outs" by (simp_all add: i)
    then have l: "output_type s = ty \<and> output_shape s = None \<and>
        fst (observe s) = Inl UnboundLocalError \<and>
        fst (update s action) = Inl UnboundLocalError"
      by (rule later)
    from l show "output_type s = ty" by simp
    from l show "output_shape s = None" by simp
    from l show "fst (observe s) = Inl UnboundLocalError" by simp
    from l show "fst (update s action) = Inl UnboundLocalError" by simp
  next
    assume e: "init np g None ty = Inl e"
    from init_error_any_type [OF e, of None "''pixels''"]
    show "e = ValueError" and "init np g None ''pixels'' = Inl ValueError"
      by simp_all
  next
    assume "4 \<le> g"
    then have "4 \<le> grid_size c" by (simp add: c_def)
    then obtain outs1 where r: "reset Converts c = Inr outs1" and ne: "outs1 \<noteq> []"
      by (simp add: reset_large upto.simps)
    from later [OF r] i [of Converts] r ne
    show "\<exists>outs1. init Converts g None ty = Inr outs1 \<and> outs1 \<noteq> [] \<and>
               (\<forall>s1 \<in> set outs1. output_type s1 = ty \<and> output_shape s1 = None \<and>
                  fst (observe s1) = Inl UnboundLocalError \<and>
                  fst (update s1 action) = Inl UnboundLocalError)"
      by auto
  qed
qed

theorem unknown_output_type_constructs_witness:
  "''rgb'' \<noteq> ''pixels'' \<and> ''rgb'' \<noteq> ''position'' \<and> (4::int) \<le> 4 \<and>
   init Converts 4 None ''rgb'' =
     Inr [\<lparr>grid_size = 4, output_type = ''rgb'', output_shape = None, state = (0, 0, 1)\<rparr>,
          \<lparr>grid_size = 4, output_type = ''rgb'', output_shape = None, state = (0, 1, 1)\<rparr>,
          \<lparr>grid_size = 4, output_type = ''rgb'', output_shape = None, state = (0, 2, 1)\<rparr>] \<and>
   fst (observe \<lparr>grid_size = 4, output_type = ''rgb'', output_shape = None,
                  state = (0, 1, 1)\<rparr>) = Inl UnboundLocalError \<and>
   fst (update \<lparr>grid_size = 4, output_type = ''rgb'', output_shape = None,
                  state = (0, 1, 1)\<rparr> 1) = Inl UnboundLocalError \<and>
   init Refuses 4 None ''rgb'' = Inl ValueError \<and>
   init Refuses 4 None ''pixels'' = Inl ValueError"
proof -
  let ?c = "\<lparr>grid_size = 4, output_type = ''rgb'', output_shape = None,
             state = (0::int, 0::int, 0::int)\<rparr>"
  let ?s = "?c\<lparr>state := (0, 1, 1)\<rparr>"
  let ?outs = "[?c\<lparr>state := (0, 0, 1)\<rparr>, ?s, ?c\<lparr>state := (0, 2, 1)\<rparr>]"
  have r: "init Converts 4 None ''rgb'' = Inr ?outs"
    by (simp add: init_def reset_def randint_def upto.simps)
  have m: "?s \<in> set ?outs" by simp
  have e: "init Refuses 4 None ''rgb'' = Inl ValueError"
    by (simp add: init_def reset_def randint_def)
  from unknown_output_type_constructs [of "''rgb''" Converts 4 ?outs ?s 1 ValueError] r m
    unknown_output_type_constructs [of "''rgb''" Refuses 4 "[]" ?s 1 ValueError] e
  show ?thesis by simp
qed

text \<open>
  The claim as written has the construction fail with an error about the configuration.
  Under \<open>Converts\<close>, \<^verbatim>\<open>Catcher(4, None, 'rgb')\<close> constructs; under \<open>Refuses\<close> it raises the
  \<^verbatim>\<open>ValueError\<close> that \<^verbatim>\<open>Catcher(4, None, 'pixels')\<close> raises too.
\<close>

theorem unknown_output_type_counterexample:
  "init Converts 4 None ''rgb'' =
     Inr [\<lparr>grid_size = 4, output_type = ''rgb'', output_shape = None, state = (0, 0, 1)\<rparr>,
          \<lparr>grid_size = 4, output_type = ''rgb'', output_shape = None, state = (0, 1, 1)\<rparr>,
          \<lparr>grid_size = 4, output_type = ''rgb'', output_shape = None, state = (0, 2, 1)\<rparr>] \<and>
   init Refuses 4 None ''rgb'' = Inl ValueError \<and>
   init Refuses 4 None ''pixels'' = Inl ValueError"
  by (simp add: init_def reset_def randint_def upto.simps)

subsection \<open>The fruit's row\<close>

lemma updates_grid_size: "grid_size (updates s as) = grid_size s"
  by (induction as arbitrary: s) (simp_all add: update_snd update_state_grid_size)

lemma updates_fruit_row: "fruit_row (updates s as) = fruit_row s + int (length as)"
  by (induction as arbitrary: s) (simp_all add: update_snd update_state_fruit_row)

lemma updates_fruit_col: "fruit_col (updates s as) = fruit_col s"
  by (induction as arbitrary: s) (simp_all add: update_snd update_state_fruit_col)

lemma updates_basket_range:
  assumes "2 \<le> grid_size s" and "1 \<le> basket s" and "basket s \<le> grid_size s - 1"
  shows "1 \<le> basket (updates s as) \<and> basket (updates s as) \<le> grid_size s - 1"
  using assms
proof (induction as arbitrary: s)
  case Nil
  then show ?case by simp
next
  case (Cons a as)
  let ?t = "update_state s a"
  have g: "grid_size ?t = grid_size s" by (rule update_state_grid_size)
  from Cons.prems have "1 \<le> basket ?t" and "basket ?t \<le> grid_size s - 1"
    by (auto simp: update_state_basket)
  with Cons.prems(1) g
  have "1 \<le> basket (updates ?t as) \<and> basket (updates ?t as) \<le> grid_size ?t - 1"
    by (intro Cons.IH) simp_all
  with g show ?case by (simp add: update_snd)
qed

text \<open>
  The entries of every state of an episode: after a reset and any updates, the row is the
  number of updates, the column is at most \<open>grid_size - 2\<close> and the basket at most
  \<open>grid_size - 1\<close>.
\<close>

lemma episode_entries:
  assumes "reset np self = Inr outs" and "s \<in> set outs"
  shows "fruit_row (updates s as) = int (length as) \<and>
     0 \<le> fruit_col (updates s as) \<and> fruit_col (updates s as) \<le> grid_size self - 2 \<and>
     1 \<le> basket (updates s as) \<and> basket (updates s as) \<le> grid_size self - 1"
proof -
  from reset_member [OF assms] reset_fruit_row [OF assms]
  have m: "4 \<le> grid_size self" "0 \<le> fruit_col s" "fruit_col s \<le> grid_size self - 2"
    "1 \<le> basket s" "basket s \<le> grid_size self - 3" "fruit_row s = 0"
    "grid_size s = grid_size self"
    by simp_all
  then have "1 \<le> basket (updates s as) \<and> basket (updates s as) \<le> grid_size s - 1"
    by (intro updates_basket_range) simp_all
  with m show ?thesis
    by (simp add: updates_fruit_row updates_fruit_col)
qed

text \<open>
  Claim C4, amended. \<open>0 \<le> fruit_row \<le> grid_size - 1\<close> is established by \<^verbatim>\<open>reset\<close>,
  whenever it returns, and preserved by \<^verbatim>\<open>update\<close>, for every action, from every state
  that is not terminal; so it holds after every sequence of at most \<open>grid_size - 1\<close>
  updates that follows a reset.
\<close>

theorem row_invariant_until_terminal:
  "(reset np self = Inr outs \<and> s \<in> set outs \<longrightarrow>
      0 \<le> fruit_row s \<and> fruit_row s \<le> grid_size s - 1) \<and>
   (0 \<le> fruit_row t \<and> fruit_row t \<le> grid_size t - 1 \<and> \<not> fst (is_over t) \<longrightarrow>
      0 \<le> fruit_row (snd (update t action)) \<and>
      fruit_row (snd (update t action)) \<le> grid_size (snd (update t action)) - 1) \<and>
   (reset np self = Inr outs \<and> s \<in> set outs \<and> int (length as) \<le> grid_size self - 1 \<longrightarrow>
      0 \<le> fruit_row (updates s as) \<and>
      fruit_row (updates s as) \<le> grid_size (updates s as) - 1)"
proof (intro conjI impI)
  assume "reset np self = Inr outs \<and> s \<in> set outs"
  then have "fruit_row s = 0 \<and> grid_size s = grid_size self \<and> 4 \<le> grid_size self"
    using reset_fruit_row by blast
  then show "0 \<le> fruit_row s" and "fruit_row s \<le> grid_size s - 1" by simp_all
next
  assume "0 \<le> fruit_row t \<and> fruit_row t \<le> grid_size t - 1 \<and> \<not> fst (is_over t)"
  then show "0 \<le> fruit_row (snd (update t action))"
    and "fruit_row (snd (update t action)) \<le> grid_size (snd (update t action)) - 1"
    by (simp_all add: update_snd update_state_fruit_row update_state_grid_size is_over_fst)
next
  assume a: "reset np self = Inr outs \<and> s \<in> set outs \<and> int (length as) \<le> grid_size self - 1"
  then have "fruit_row s = 0 \<and> grid_size s = grid_size self"
    using reset_fruit_row by blast
  with a show "0 \<le> fruit_row (updates s as)"
    and "fruit_row (updates s as) \<le> grid_size (updates s as) - 1"
    by (simp_all add: updates_fruit_row updates_grid_size)
qed

theorem row_invariant_until_terminal_witness:
  "reset Converts
     \<lparr>grid_size = 4, output_type = ''position'', output_shape = Some [3], state = (3, 0, 2)\<rparr> =
     Inr [\<lparr>grid_size = 4, output_type = ''position'', output_shape = Some [3], state = (0, 0, 1)\<rparr>,
          \<lparr>grid_size = 4, output_type = ''position'', output_shape = Some [3], state = (0, 1, 1)\<rparr>,
          \<lparr>grid_size = 4, output_type = ''position'', output_shape = Some [3], state = (0, 2, 1)\<rparr>] \<and>
   int (length [2, 0, 1 :: int]) \<le> 4 - 1 \<and>
   \<not> fst (is_over \<lparr>grid_size = 4, output_type = ''position'', output_shape = Some [3],
                   state = (0, 1, 1)\<rparr>) \<and>
   fruit_row (snd (update \<lparr>grid_size = 4, output_type = ''position'', output_shape = Some [3],
                   state = (0, 1, 1)\<rparr> 2)) = 1 \<and>
   fruit_row (updates \<lparr>grid_size = 4, output_type = ''position'', output_shape = Some [3],
                   state = (0, 1, 1)\<rparr> [2, 0, 1]) = 3"
proof -
  let ?c = "\<lparr>grid_size = 4, output_type = ''position'', output_shape = Some [3],
             state = (3::int, 0::int, 2::int)\<rparr>"
  let ?s = "\<lparr>grid_size = 4, output_type = ''position'', output_shape = Some [3],
             state = (0::int, 1::int, 1::int)\<rparr>"
  let ?outs = "[?c\<lparr>state := (0, 0, 1)\<rparr>, ?s, ?c\<lparr>state := (0, 2, 1)\<rparr>]"
  have r: "reset Converts ?c = Inr ?outs"
    by (simp add: reset_def randint_def upto.simps)
  have m: "?s \<in> set ?outs" by simp
  have n: "\<not> fst (is_over ?s)" by (simp add: is_over_def)
  have f: "fruit_row ?s = 0" by (simp add: fruit_row_def)
  from row_invariant_until_terminal [of Converts ?c ?outs ?s ?s 2 "[2, 0, 1]"] r m n f
  show ?thesis
    by (simp add: update_snd update_state_def fruit_row_def)
qed

text \<open>
  The claim as written includes updates made in a terminal state. After construction
  with \<open>grid_size = 4\<close> in position mode (under \<open>Converts\<close>) and three updates the state
  is terminal; a fourth update returns normally and leaves \<open>fruit_row = 4\<close>, outside
  \<open>0..3\<close>.
\<close>

theorem update_after_terminal_counterexample:
  "init Converts 4 None ''position'' =
     Inr [\<lparr>grid_size = 4, output_type = ''position'', output_shape = Some [3], state = (0, 0, 1)\<rparr>,
          \<lparr>grid_size = 4, output_type = ''position'', output_shape = Some [3], state = (0, 1, 1)\<rparr>,
          \<lparr>grid_size = 4, output_type = ''position'', output_shape = Some [3], state = (0, 2, 1)\<rparr>] \<and>
   fst (is_over (updates \<lparr>grid_size = 4, output_type = ''position'', output_shape = Some [3],
                   state = (0, 0, 1)\<rparr> [1, 1, 1])) \<and>
   fst (update (updates \<lparr>grid_size = 4, output_type = ''position'', output_shape = Some [3],
                   state = (0, 0, 1)\<rparr> [1, 1, 1]) 1) =
     Inr (\<lparr>shape = [3], data = [4, 0, 1]\<rparr>, 0, False) \<and>
   fruit_row (snd (update (updates \<lparr>grid_size = 4, output_type = ''position'',
                   output_shape = Some [3], state = (0, 0, 1)\<rparr> [1, 1, 1]) 1)) = 4 \<and>
   \<not> (4 \<le> grid_size (snd (update (updates \<lparr>grid_size = 4, output_type = ''position'',
                   output_shape = Some [3], state = (0, 0, 1)\<rparr> [1, 1, 1]) 1)) - 1)"
  by code_simp

subsection \<open>Rendering\<close>

lemma draw_state_row_error:
  assumes "0 \<le> grid_size self" and "\<not> (- grid_size self \<le> fruit_row self \<and> fruit_row self < grid_size self)"
  shows "draw_state self = (Inl IndexError, self)"
  using assms
  by (auto simp: draw_state_def zeros_def norm_index_def fruit_row_def split: prod.splits)

lemma draw_state_Inr_row:
  assumes "fst (draw_state self) = Inr canvas"
  shows "- grid_size self \<le> fruit_row self \<and> fruit_row self < grid_size self"
  using assms
  by (auto simp: draw_state_def zeros_def norm_index_def fruit_row_def
      split: prod.splits if_splits sum.splits)

lemma observe_pixels_draw_error:
  "output_type self = ''pixels'' \<Longrightarrow> draw_state self = (Inl e, self) \<Longrightarrow> observe self = (Inl e, self)"
  by (simp add: observe_def)

text \<open>
  Claim C10. \<^verbatim>\<open>update\<close> has no guard for a terminal state: called where \<^verbatim>\<open>is_over\<close>
  is true, it leaves \<open>fruit_row = grid_size\<close>, and rendering that state indexes the
  canvas of \<open>grid_size\<close> rows at row \<open>grid_size\<close>: \<^verbatim>\<open>_draw_state\<close> raises \<^verbatim>\<open>IndexError\<close>,
  and so do \<^verbatim>\<open>observe_image\<close> and, in pixels mode, the \<^verbatim>\<open>update\<close> call itself. Whenever
  the rendering of a state with \<open>fruit_row \<ge> 0\<close> returns a canvas,
  \<open>fruit_row \<le> grid_size - 1\<close>.
\<close>

theorem update_in_terminal_state:
  "(fst (is_over self) \<and> 0 \<le> grid_size self \<longrightarrow>
      fruit_row (snd (update self action)) = grid_size self \<and>
      fst (draw_state (snd (update self action))) = Inl IndexError \<and>
      fst (observe_image (snd (update self action))) = Inl IndexError \<and>
      (output_type self = ''pixels'' \<longrightarrow> fst (update self action) = Inl IndexError)) \<and>
   (fst (draw_state self) = Inr canvas \<and> 0 \<le> fruit_row self \<longrightarrow>
      fruit_row self \<le> grid_size self - 1)"
proof (intro conjI impI)
  assume a: "fst (is_over self) \<and> 0 \<le> grid_size self"
  let ?s = "update_state self action"
  from a have row: "fruit_row ?s = grid_size self"
    by (simp add: is_over_fst update_state_fruit_row)
  with a have d: "draw_state ?s = (Inl IndexError, ?s)"
    by (intro draw_state_row_error) (simp_all add: update_state_grid_size)
  from row show "fruit_row (snd (update self action)) = grid_size self"
    by (simp add: update_snd)
  from d show "fst (draw_state (snd (update self action))) = Inl IndexError"
    by (simp add: update_snd)
  from d show "fst (observe_image (snd (update self action))) = Inl IndexError"
    by (simp add: update_snd observe_image_def)
  assume "output_type self = ''pixels''"
  with d show "fst (update self action) = Inl IndexError"
    by (simp add: update_fst observe_pixels_draw_error update_state_output_type)
next
  assume "fst (draw_state self) = Inr canvas \<and> 0 \<le> fruit_row self"
  then show "fruit_row self \<le> grid_size self - 1"
    using draw_state_Inr_row [of self canvas] by simp
qed

theorem update_in_terminal_state_witness:
  "fst (is_over \<lparr>grid_size = 4, output_type = ''pixels'', output_shape = Some [16],
                 state = (3, 2, 1)\<rparr>) \<and>
   fst (update \<lparr>grid_size = 4, output_type = ''pixels'', output_shape = Some [16],
                state = (3, 2, 1)\<rparr> 0) = Inl IndexError \<and>
   snd (update \<lparr>grid_size = 4, output_type = ''pixels'', output_shape = Some [16],
                state = (3, 2, 1)\<rparr> 0) =
     \<lparr>grid_size = 4, output_type = ''pixels'', output_shape = Some [16], state = (4, 2, 1)\<rparr> \<and>
   fst (draw_state \<lparr>grid_size = 4, output_type = ''pixels'', output_shape = Some [16],
                   state = (3, 2, 1)\<rparr>) =
     Inr [[0, 0, 0, 0], [0, 0, 0, 0], [0, 0, 0, 0], [1, 1, 1, 0]]"
proof -
  let ?s = "\<lparr>grid_size = 4, output_type = ''pixels'', output_shape = Some [16],
             state = (3::int, 2::int, 1::int)\<rparr>"
  let ?canvas = "[[0, 0, 0, 0], [0, 0, 0, 0], [0, 0, 0, 0], [1, 1, 1, 0::int]]"
  have o: "fst (is_over ?s)" by (simp add: is_over_def)
  have d: "fst (draw_state ?s) = Inr ?canvas" by code_simp
  have u: "snd (update ?s 0) = ?s\<lparr>state := (4, 2, 1)\<rparr>"
    by (simp add: update_snd update_state_def)
  from update_in_terminal_state [of ?s 0 ?canvas] o d u show ?thesis
    by (simp add: fruit_row_def)
qed

lemma set_cells_length: "length (set_cells row js v) = length row"
  unfolding set_cells_def by (induction js arbitrary: row) simp_all

lemma set_cells_nth:
  "k < length row \<Longrightarrow> set_cells row js v ! k = (if k \<in> set js then v else row ! k)"
  unfolding set_cells_def
proof (induction js arbitrary: row)
  case Nil
  show ?case by simp
next
  case (Cons j js)
  from Cons.prems have "k < length (row[j := v])" by simp
  then have "fold (\<lambda>j r. r[j := v]) js (row[j := v]) ! k =
      (if k \<in> set js then v else row[j := v] ! k)"
    by (rule Cons.IH)
  with Cons.prems show ?case by (auto simp: nth_list_update)
qed

lemma slice_indices_mem:
  assumes "0 \<le> slice_bound n lo"
  shows "k \<in> set (slice_indices n lo hi) \<longleftrightarrow>
     slice_bound n lo \<le> int k \<and> int k < slice_bound n hi"
proof
  assume "k \<in> set (slice_indices n lo hi)"
  then obtain z where "slice_bound n lo \<le> z" "z \<le> slice_bound n hi - 1" "k = nat z"
    by (auto simp: slice_indices_def)
  with assms show "slice_bound n lo \<le> int k \<and> int k < slice_bound n hi" by simp
next
  assume "slice_bound n lo \<le> int k \<and> int k < slice_bound n hi"
  then have "int k \<in> {slice_bound n lo..slice_bound n hi - 1}" by simp
  then have "nat (int k) \<in> nat ` {slice_bound n lo..slice_bound n hi - 1}" by (rule imageI)
  then show "k \<in> set (slice_indices n lo hi)" by (simp add: slice_indices_def)
qed

text \<open>
  The canvas of a state whose fruit is inside the grid and whose basket is at column 1 or
  further right: \<open>grid_size\<close> rows of \<open>grid_size\<close> cells, with 1 in the fruit's cell and
  in the cells of the last row at columns \<open>basket - 1\<close> to \<open>basket + 1\<close> that exist, and 0
  elsewhere.
\<close>

lemma draw_state_cells:
  assumes row: "0 \<le> fruit_row self" "fruit_row self < grid_size self"
    and col: "0 \<le> fruit_col self" "fruit_col self < grid_size self"
    and bas: "1 \<le> basket self"
  shows "\<exists>canvas. draw_state self = (Inr canvas, self) \<and>
     length canvas = nat (grid_size self) \<and>
     (\<forall>i < nat (grid_size self). length (canvas ! i) = nat (grid_size self) \<and>
        (\<forall>j < nat (grid_size self). canvas ! i ! j =
           (if (int i = fruit_row self \<and> int j = fruit_col self) \<or>
               (int i = grid_size self - 1 \<and>
                  basket self - 1 \<le> int j \<and> int j \<le> basket self + 1)
            then 1 else 0)))"
proof -
  define g where "g = grid_size self"
  define n where "n = nat g"
  obtain f0 f1 b where st: "state self = (f0, f1, b)" by (cases "state self")
  from row col bas st have rng: "0 \<le> f0" "f0 < g" "0 \<le> f1" "f1 < g" "1 \<le> b"
    by (simp_all add: fruit_row_def fruit_col_def basket_def g_def)
  define canvas0 where "canvas0 = replicate n (replicate n (0::int))"
  define canvas1 where "canvas1 = canvas0[nat f0 := (canvas0 ! nat f0)[nat f1 := 1]]"
  define js where "js = slice_indices g (b - 1) (b + 2)"
  define canvas where "canvas = canvas1[nat (g - 1) := set_cells (canvas1 ! nat (g - 1)) js 1]"
  have z: "zeros g = Inr canvas0"
    using rng by (simp add: zeros_def canvas0_def n_def)
  have i0: "norm_index g f0 = Inr (nat f0)" and i1: "norm_index g f1 = Inr (nat f1)"
    and il: "norm_index g (- 1) = Inr (nat (g - 1))"
    using rng by (simp_all add: norm_index_def)
  have d: "draw_state self = (Inr canvas, self)"
    by (simp add: draw_state_def st z i0 i1 il g_def [symmetric] Let_def
        canvas_def canvas1_def js_def)
  have len: "length canvas = n"
    by (simp add: canvas_def canvas1_def canvas0_def)
  have f0n: "nat f0 < n" and f1n: "nat f1 < n" and ln: "nat (g - 1) < n"
    using rng by (simp_all add: n_def)
  have c1: "length (canvas1 ! i) = n \<and>
      (\<forall>j < n. canvas1 ! i ! j = (if int i = f0 \<and> int j = f1 then 1 else 0))"
    if "i < n" for i
    using that rng f0n f1n
    by (auto simp: canvas1_def canvas0_def nth_list_update)
  have sb: "slice_bound g (b - 1) = min (b - 1) g" "slice_bound g (b + 2) = min (b + 2) g"
    using rng by (simp_all add: slice_bound_def)
  have js_mem: "j \<in> set js \<longleftrightarrow> b - 1 \<le> int j \<and> int j \<le> b + 1" if "j < n" for j
  proof -
    have "0 \<le> slice_bound g (b - 1)" using rng sb by simp
    then have "j \<in> set js \<longleftrightarrow> slice_bound g (b - 1) \<le> int j \<and> int j < slice_bound g (b + 2)"
      unfolding js_def by (rule slice_indices_mem)
    with that sb show ?thesis by (auto simp: n_def)
  qed
  have cells: "length (canvas ! i) = n \<and>
      (\<forall>j < n. canvas ! i ! j =
         (if (int i = f0 \<and> int j = f1) \<or> (int i = g - 1 \<and> b - 1 \<le> int j \<and> int j \<le> b + 1)
          then 1 else 0))"
    if i: "i < n" for i
  proof (cases "i = nat (g - 1)")
    case True
    have l1: "length canvas1 = n" by (simp add: canvas1_def canvas0_def)
    from True ln l1 have row_eq: "canvas ! i = set_cells (canvas1 ! i) js 1"
      by (simp add: canvas_def)
    from True rng have ig: "int i = g - 1" by simp
    from c1 [OF i] have lr: "length (canvas1 ! i) = n" by simp
    show ?thesis
    proof (intro conjI allI impI)
      show "length (canvas ! i) = n" by (simp add: row_eq set_cells_length lr)
    next
      fix j assume j: "j < n"
      with lr have "set_cells (canvas1 ! i) js 1 ! j = (if j \<in> set js then 1 else canvas1 ! i ! j)"
        by (simp add: set_cells_nth)
      with c1 [OF i] j js_mem [OF j] ig
      show "canvas ! i ! j =
         (if (int i = f0 \<and> int j = f1) \<or> (int i = g - 1 \<and> b - 1 \<le> int j \<and> int j \<le> b + 1)
          then 1 else 0)"
        by (simp add: row_eq)
    qed
  next
    case False
    then have row_eq: "canvas ! i = canvas1 ! i" by (simp add: canvas_def)
    from False i have "int i \<noteq> g - 1" by (auto simp: n_def)
    with c1 [OF i] show ?thesis by (simp add: row_eq)
  qed
  from d len cells show ?thesis
    using st by (auto simp: g_def [symmetric] n_def [symmetric] fruit_row_def fruit_col_def basket_def)
qed

text \<open>
  Claim C5. The canvas should show the fruit's cell and a strip of three cells on the
  bottom row centred at the basket. \<^verbatim>\<open>_update_state\<close> lets the basket reach column
  \<open>grid_size - 1\<close>, where the slice \<open>basket - 1 : basket + 2\<close> is cut at the edge of the
  grid. After construction with \<open>grid_size = 4\<close> (under \<open>Converts\<close>) and two moves to the
  right the state is \<open>(2, 0, 3)\<close>, not terminal, and the bottom row of the canvas that
  \<^verbatim>\<open>update\<close> returns and that \<^verbatim>\<open>_draw_state\<close> draws is \<open>0 0 1 1\<close>: a strip of two cells.
\<close>

theorem basket_at_right_edge_draws_two_cells:
  "init Converts 4 None ''pixels'' =
     Inr [\<lparr>grid_size = 4, output_type = ''pixels'', output_shape = Some [16], state = (0, 0, 1)\<rparr>,
          \<lparr>grid_size = 4, output_type = ''pixels'', output_shape = Some [16], state = (0, 1, 1)\<rparr>,
          \<lparr>grid_size = 4, output_type = ''pixels'', output_shape = Some [16], state = (0, 2, 1)\<rparr>] \<and>
   update (updates \<lparr>grid_size = 4, output_type = ''pixels'', output_shape = Some [16],
              state = (0, 0, 1)\<rparr> [2]) 2 =
     (Inr (\<lparr>shape = [1, 16], data = [0, 0, 0, 0, 0, 0, 0, 0, 1, 0, 0, 0, 0, 0, 1, 1]\<rparr>, 0, False),
      \<lparr>grid_size = 4, output_type = ''pixels'', output_shape = Some [16], state = (2, 0, 3)\<rparr>) \<and>
   fst (draw_state \<lparr>grid_size = 4, output_type = ''pixels'', output_shape = Some [16],
              state = (2, 0, 3)\<rparr>) =
     Inr [[0, 0, 0, 0], [0, 0, 0, 0], [1, 0, 0, 0], [0, 0, 1, 1]]"
  by code_simp

end
